theory Spec2Isabelle
  imports Main "HOL-Library.Word"
begin

section \<open>The private-key callback of server-tls-pkcallback.c\<close>

text \<open>
  A shallow embedding of \<^verbatim>\<open>load_file\<close>, \<^verbatim>\<open>load_key_file\<close>, \<^verbatim>\<open>myEccSign\<close> and of the
  connection loop of \<^verbatim>\<open>main\<close>. The file system, the allocator and the wolfSSL
  primitives the code calls are parameters (the record \<open>world\<close>); every call the code
  makes is logged as an event, and every \<^verbatim>\<open>malloc\<close> and \<^verbatim>\<open>free\<close> acts on an explicit
  heap.
\<close>

subsection \<open>Constants of the wolfSSL headers\<close>

text \<open>
  The error codes are enumerators of wolfssl/wolfcrypt/error-crypt.h and
  wolfssl/ssl.h, headers of the wolfSSL library; the values are the library's.
\<close>

definition WC_PENDING_E :: int where "WC_PENDING_E = - 108"
definition MEMORY_E :: int where "MEMORY_E = - 125"
definition BUFFER_E :: int where "BUFFER_E = - 132"
definition BAD_FUNC_ARG :: int where "BAD_FUNC_ARG = - 173"
definition BAD_PATH_ERROR :: int where "BAD_PATH_ERROR = - 244"
definition WOLFSSL_SUCCESS :: int where "WOLFSSL_SUCCESS = 1"

definition KEY_FILE :: string where "KEY_FILE = ''../certs/ecc-key.pem''"

subsection \<open>Data\<close>

type_synonym byte = "8 word"
type_synonym word32 = "32 word"

text \<open>
  A pointer to bytes: \<open>NULL\<close>, the block that the n-th call of \<^verbatim>\<open>malloc\<close> in this
  program returned (\<open>Block n\<close>), or memory that this program did not allocate and does
  not own, such as the key buffer wolfSSL hands to the callback (\<open>Foreign n\<close>).
\<close>

datatype ptr = NULL | Block nat | Foreign nat

text \<open>
  The heap as far as \<^verbatim>\<open>malloc\<close> and \<^verbatim>\<open>free\<close> see it: the blocks that are allocated and
  not yet freed, the number of \<^verbatim>\<open>malloc\<close> calls so far, and the pointers that were
  passed to \<^verbatim>\<open>free\<close> although they were neither \<open>NULL\<close> nor a live block of this
  program (undefined behaviour in C).
\<close>

record heap =
  live :: "nat list"
  nmalloc :: nat
  bad_free :: "ptr list"

text \<open>
  A file that can be opened: its bytes, and whether reading it fails (an I/O error, or
  fewer bytes than its size can be read).
\<close>

record disk_file =
  fdata :: "byte list"
  rd_fail :: bool

text \<open>The struct \<^verbatim>\<open>PkCbInfo\<close>; \<open>'k\<close> is wolfSSL's \<^verbatim>\<open>ecc_key\<close>, \<open>None\<close> a NULL \<^verbatim>\<open>keyFile\<close>.\<close>

record 'k PkCbInfo =
  keyFile :: "string option"
  key :: 'k
  state :: int

text \<open>
  The calls the code makes. \<open>SignHash r\<close> is a call of \<^verbatim>\<open>wc_ecc_sign_hash\<close> with the
  generator \<open>r\<close>; \<open>Malloc n p\<close> is \<^verbatim>\<open>malloc(n)\<close> returning \<open>p\<close>.
\<close>

datatype event =
    Printf string
  | FOpen string | FSeekEnd | FTell | Rewind | FRead nat | FClose
  | Malloc nat ptr | Free ptr
  | KeyPemToDer | EccInit | EccPrivateKeyDecode | GetRNG nat | SignHash nat | EccFree

fun is_file_event :: "event \<Rightarrow> bool" where
  "is_file_event (FOpen _) = True"
| "is_file_event FSeekEnd = True"
| "is_file_event FTell = True"
| "is_file_event Rewind = True"
| "is_file_event (FRead _) = True"
| "is_file_event FClose = True"
| "is_file_event _ = False"

fun is_crypto_event :: "event \<Rightarrow> bool" where
  "is_crypto_event KeyPemToDer = True"
| "is_crypto_event EccInit = True"
| "is_crypto_event EccPrivateKeyDecode = True"
| "is_crypto_event (GetRNG _) = True"
| "is_crypto_event (SignHash _) = True"
| "is_crypto_event EccFree = True"
| "is_crypto_event _ = False"

fun freed :: "event list \<Rightarrow> ptr list" where
  "freed [] = []"
| "freed (Free p # es) = p # freed es"
| "freed (_ # es) = freed es"

fun is_key_event :: "event \<Rightarrow> bool" where
  "is_key_event EccInit = True"
| "is_key_event EccPrivateKeyDecode = True"
| "is_key_event EccFree = True"
| "is_key_event _ = False"

fun is_rng_event :: "event \<Rightarrow> bool" where
  "is_rng_event (GetRNG _) = True"
| "is_rng_event (SignHash _) = True"
| "is_rng_event _ = False"

fun sign_rngs :: "event list \<Rightarrow> nat list" where
  "sign_rngs [] = []"
| "sign_rngs (SignHash r # es) = r # sign_rngs es"
| "sign_rngs (_ # es) = sign_rngs es"

text \<open>
  What the code does not define: the file system behind \<^verbatim>\<open>XFOPEN\<close>, whether the n-th
  \<^verbatim>\<open>malloc\<close> succeeds, and the wolfSSL primitives. A session (\<^verbatim>\<open>WOLFSSL*\<close>) and a
  generator (\<^verbatim>\<open>WC_RNG*\<close>) are handles. Each primitive returns its \<^verbatim>\<open>int\<close> result
  first, then what it writes through its pointer arguments.
\<close>

record 'k world =
  XFOPEN :: "string \<Rightarrow> disk_file option"
  malloc_ok :: "nat \<Rightarrow> bool"
  wc_KeyPemToDer :: "byte list \<Rightarrow> word32 \<Rightarrow> word32 \<Rightarrow> int \<times> byte list"
  wc_ecc_init :: "'k \<Rightarrow> int \<times> 'k"
  wc_EccPrivateKeyDecode :: "byte list \<Rightarrow> 'k \<Rightarrow> word32 \<Rightarrow> int \<times> 'k"
  wolfSSL_GetRNG :: "nat \<Rightarrow> nat"
  wc_ecc_sign_hash ::
    "byte list \<Rightarrow> word32 \<Rightarrow> byte list \<Rightarrow> word32 \<Rightarrow> nat \<Rightarrow> 'k \<Rightarrow> int \<times> byte list \<times> word32 \<times> 'k"
  wc_ecc_free :: "'k \<Rightarrow> 'k"

subsection \<open>malloc and free\<close>

definition malloc :: "'k world \<Rightarrow> heap \<Rightarrow> ptr \<times> heap" where
  "malloc w h =
     (let n = Suc (nmalloc h) in
      if malloc_ok w (nmalloc h)
      then (Block n, h\<lparr>live := n # live h, nmalloc := n\<rparr>)
      else (NULL, h\<lparr>nmalloc := n\<rparr>))"

definition free :: "ptr \<Rightarrow> heap \<Rightarrow> heap" where
  "free p h =
     (case p of
        NULL \<Rightarrow> h
      | Block n \<Rightarrow>
          if n \<in> set (live h) then h\<lparr>live := removeAll n (live h)\<rparr>
          else h\<lparr>bad_free := bad_free h @ [p]\<rparr>
      | Foreign n \<Rightarrow> h\<lparr>bad_free := bad_free h @ [p]\<rparr>)"

text \<open>A heap whose live blocks all come from the calls of \<^verbatim>\<open>malloc\<close> counted so far.\<close>

definition heap_ok :: "heap \<Rightarrow> bool" where
  "heap_ok h \<longleftrightarrow> list_all (\<lambda>n. n \<le> nmalloc h) (live h)"

subsection \<open>load_file\<close>

text \<open>
  The result of \<^verbatim>\<open>load_file\<close>: the return value, \<^verbatim>\<open>*buf\<close>, \<^verbatim>\<open>*bufLen\<close>, the bytes read
  into \<^verbatim>\<open>*buf\<close>, the heap and the calls made. Its only caller passes the addresses of
  two locals, so the NULL checks on \<^verbatim>\<open>buf\<close> and \<^verbatim>\<open>bufLen\<close> never fire, and the caller's
  \<^verbatim>\<open>buf\<close> is NULL when \<^verbatim>\<open>fname\<close> is NULL.

  \<^verbatim>\<open>ftell\<close> returns the size of the file as a \<^verbatim>\<open>long\<close> (64 bits on the POSIX
  systems the file is written for); the code casts it to \<^verbatim>\<open>int\<close> (32 bits, two's
  complement) before it stores it. \<^verbatim>\<open>fread\<close> is asked for one item of
  \<^verbatim>\<open>*bufLen\<close> bytes and returns 1 only when all of them were read.
\<close>

record lf_result =
  lf_ret :: int
  lf_buf :: ptr
  lf_len :: nat
  lf_data :: "byte list"
  lf_heap :: heap
  lf_trace :: "event list"

definition load_file :: "'k world \<Rightarrow> string option \<Rightarrow> heap \<Rightarrow> lf_result" where
  "load_file w fname h =
     (case fname of
        None \<Rightarrow>
          \<lparr>lf_ret = BAD_FUNC_ARG, lf_buf = NULL, lf_len = 0, lf_data = [], lf_heap = h,
           lf_trace = []\<rparr>
      | Some path \<Rightarrow>
          (case XFOPEN w path of
             None \<Rightarrow>
               \<lparr>lf_ret = BAD_PATH_ERROR, lf_buf = NULL, lf_len = 0, lf_data = [],
                lf_heap = h, lf_trace = [FOpen path, Printf ''Error loading %s'']\<rparr>
           | Some f \<Rightarrow>
               (let fileSz = sint (word_of_nat (length (fdata f)) :: 32 word);
                    t = [FOpen path, FSeekEnd, FTell, Rewind]
                in if fileSz > 0 then
                     (let bufLen = nat fileSz;
                          (p, h') = malloc w h
                      in if p = NULL then
                           \<lparr>lf_ret = MEMORY_E, lf_buf = NULL, lf_len = bufLen, lf_data = [],
                            lf_heap = h',
                            lf_trace = t @ [Malloc bufLen p,
                              Printf ''Error allocating %lu bytes'', FClose]\<rparr>
                         else if \<not> rd_fail f then
                           \<lparr>lf_ret = 0, lf_buf = p, lf_len = bufLen,
                            lf_data = take bufLen (fdata f), lf_heap = h',
                            lf_trace = t @ [Malloc bufLen p, FRead bufLen, FClose]\<rparr>
                         else
                           \<lparr>lf_ret = - 1, lf_buf = p, lf_len = bufLen, lf_data = [],
                            lf_heap = h',
                            lf_trace = t @ [Malloc bufLen p, FRead bufLen, FClose]\<rparr>)
                   else
                     \<lparr>lf_ret = BUFFER_E, lf_buf = NULL, lf_len = 0, lf_data = [],
                      lf_heap = h, lf_trace = t @ [FClose]\<rparr>)))"

subsection \<open>load_key_file\<close>

text \<open>
  \<^verbatim>\<open>*derBuf\<close> and \<^verbatim>\<open>*derLen\<close> are the caller's variables: \<open>derBuf0\<close> and \<open>derLen0\<close> are
  their values at the call, \<open>lk_derBuf\<close> and \<open>lk_derLen\<close> their values at the return,
  \<open>lk_der\<close> the bytes \<^verbatim>\<open>wc_KeyPemToDer\<close> wrote.
\<close>

record lk_result =
  lk_ret :: int
  lk_derBuf :: ptr
  lk_derLen :: word32
  lk_der :: "byte list"
  lk_heap :: heap
  lk_trace :: "event list"

definition load_key_file ::
  "'k world \<Rightarrow> string option \<Rightarrow> ptr \<Rightarrow> word32 \<Rightarrow> heap \<Rightarrow> lk_result" where
  "load_key_file w fname derBuf0 derLen0 h =
     (let lf = load_file w fname h in
      if lf_ret lf \<noteq> 0 then
        \<lparr>lk_ret = lf_ret lf, lk_derBuf = derBuf0, lk_derLen = derLen0, lk_der = [],
         lk_heap = lf_heap lf, lk_trace = lf_trace lf\<rparr>
      else
        (let (d, h1) = malloc w (lf_heap lf);
             t1 = lf_trace lf @ [Malloc (lf_len lf) d]
         in if d = NULL then
              \<lparr>lk_ret = MEMORY_E, lk_derBuf = d, lk_derLen = derLen0, lk_der = [],
               lk_heap = free (lf_buf lf) h1, lk_trace = t1 @ [Free (lf_buf lf)]\<rparr>
            else
              (let (r, der) = wc_KeyPemToDer w (lf_data lf) (word_of_nat (lf_len lf))
                                (word_of_nat (lf_len lf))
               in if r < 0 then
                    \<lparr>lk_ret = r, lk_derBuf = d, lk_derLen = derLen0, lk_der = der,
                     lk_heap = free d (free (lf_buf lf) h1),
                     lk_trace = t1 @ [KeyPemToDer, Free (lf_buf lf), Free d]\<rparr>
                  else
                    \<lparr>lk_ret = 0, lk_derBuf = d, lk_derLen = word_of_int r, lk_der = der,
                     lk_heap = free (lf_buf lf) h1,
                     lk_trace = t1 @ [KeyPemToDer, Free (lf_buf lf)]\<rparr>)))"

subsection \<open>myEccSign\<close>

text \<open>The arguments of the callback but \<^verbatim>\<open>ctx\<close>, with the contents of the buffers.\<close>

record sign_args =
  a_ssl :: nat
  a_in :: "byte list"
  a_inSz :: word32
  a_out :: "byte list"
  a_outSz :: word32
  a_key :: ptr
  a_keySz :: word32

text \<open>
  What a call leaves behind: the return value, \<^verbatim>\<open>*ctx\<close>, the buffer \<^verbatim>\<open>out\<close> and
  \<^verbatim>\<open>*outSz\<close>, the heap and the calls made.
\<close>

record 'k sign_result =
  r_ret :: int
  r_ctx :: "'k PkCbInfo"
  r_out :: "byte list"
  r_outSz :: word32
  r_heap :: heap
  r_trace :: "event list"

text \<open>
  Lines 160 to 182: the work of a call that does not return at line 156. \<open>async\<close> says
  whether \<^verbatim>\<open>WOLFSSL_ASYNC_CRYPT\<close> is defined.
\<close>

definition sign_work ::
  "bool \<Rightarrow> 'k world \<Rightarrow> sign_args \<Rightarrow> 'k PkCbInfo \<Rightarrow> heap \<Rightarrow> 'k sign_result" where
  "sign_work async w a c h =
     (let lk = load_key_file w (keyFile c) (a_key a) (a_keySz a) h;
          fin = (\<lambda>ret k out outSz t.
            \<lparr>r_ret = ret,
             r_ctx = (if async then c\<lparr>key := k, state := 0\<rparr> else c\<lparr>key := k\<rparr>),
             r_out = out, r_outSz = outSz,
             r_heap = free (lk_derBuf lk) (lk_heap lk),
             r_trace = [Printf ''PK ECC Sign: inSz %u, keySz %u''] @ lk_trace lk @ t @
               [Free (lk_derBuf lk), Printf ''PK ECC Sign: ret %d outSz %u'']\<rparr>)
      in if lk_ret lk = 0 then
           (let (ri, k1) = wc_ecc_init w (key c) in
            if ri = 0 then
              (let (rd, k2) = wc_EccPrivateKeyDecode w (lk_der lk) k1 (lk_derLen lk) in
               if rd = 0 then
                 (let rng = wolfSSL_GetRNG w (a_ssl a);
                      (rs, out, outSz, k3) =
                        wc_ecc_sign_hash w (a_in a) (a_inSz a) (a_out a) (a_outSz a) rng k2
                  in fin rs (wc_ecc_free w k3) out outSz
                       [EccInit, EccPrivateKeyDecode, GetRNG (a_ssl a),
                        Printf ''PK ECC Sign: Curve ID %d'', SignHash rng, EccFree])
               else fin rd (wc_ecc_free w k2) (a_out a) (a_outSz a)
                      [EccInit, EccPrivateKeyDecode, EccFree])
            else fin ri k1 (a_out a) (a_outSz a) [EccInit])
         else fin (lk_ret lk) (key c) (a_out a) (a_outSz a) [])"

definition myEccSign ::
  "bool \<Rightarrow> 'k world \<Rightarrow> sign_args \<Rightarrow> 'k PkCbInfo \<Rightarrow> heap \<Rightarrow> 'k sign_result" where
  "myEccSign async w a c h =
     (if async \<and> state c = 0 then
        \<lparr>r_ret = WC_PENDING_E, r_ctx = c\<lparr>state := state c + 1\<rparr>,
         r_out = a_out a, r_outSz = a_outSz a, r_heap = h,
         r_trace = [Printf ''PK ECC Sign: inSz %u, keySz %u'',
                    Printf ''PK ECC Sign: Async Simulate'']\<rparr>
      else sign_work async w a c h)"

subsection \<open>The context of main and the calls made on it\<close>

text \<open>
  Lines 200 to 203: \<^verbatim>\<open>main\<close> has one \<^verbatim>\<open>PkCbInfo\<close>, the local \<^verbatim>\<open>myCtx\<close>, cleared by
  \<^verbatim>\<open>memset\<close> (\<open>zero\<close> is the cleared \<^verbatim>\<open>ecc_key\<close>) and given the path \<^verbatim>\<open>KEY_FILE\<close>.
  Nothing but \<^verbatim>\<open>myEccSign\<close> writes to it afterwards: \<open>sign_calls\<close> is the context
  after a sequence of calls of the callback, each in its own world, with its own
  arguments and heap.
\<close>

definition myCtx :: "'k \<Rightarrow> 'k PkCbInfo" where
  "myCtx zero = \<lparr>keyFile = Some KEY_FILE, key = zero, state = 0\<rparr>"

fun sign_calls ::
  "bool \<Rightarrow> 'k PkCbInfo \<Rightarrow> ('k world \<times> sign_args \<times> heap) list \<Rightarrow> 'k PkCbInfo" where
  "sign_calls async c [] = c"
| "sign_calls async c ((w, a, h) # cs) =
     sign_calls async (r_ctx (myEccSign async w a c h)) cs"

text \<open>
  A world whose wolfSSL primitives never return \<^verbatim>\<open>WC_PENDING_E\<close>: the key is
  initialised by \<^verbatim>\<open>wc_ecc_init\<close>, without a device, so the library computes in software.
\<close>

definition never_pending :: "'k world \<Rightarrow> bool" where
  "never_pending w \<longleftrightarrow>
     (\<forall>p n m. fst (wc_KeyPemToDer w p n m) \<noteq> WC_PENDING_E) \<and>
     (\<forall>k. fst (wc_ecc_init w k) \<noteq> WC_PENDING_E) \<and>
     (\<forall>d k n. fst (wc_EccPrivateKeyDecode w d k n) \<noteq> WC_PENDING_E) \<and>
     (\<forall>i n out m r k. fst (wc_ecc_sign_hash w i n out m r k) \<noteq> WC_PENDING_E)"

subsection \<open>The handshake loop of main\<close>

text \<open>
  Lines 341 to 344: \<^verbatim>\<open>do { ret = wolfSSL_accept(ssl); err = wolfSSL_get_error(ssl, ret); }
  while (err == WC_PENDING_E)\<close>. The session is a state \<open>'e\<close> that \<^verbatim>\<open>wolfSSL_accept\<close>
  changes; \<open>n\<close> counts the calls of \<^verbatim>\<open>wolfSSL_accept\<close>. The loop has no bound: \<open>None\<close>
  is a loop that never ends.
\<close>

partial_function (option) accept_loop ::
  "('e \<Rightarrow> int \<times> 'e) \<Rightarrow> ('e \<Rightarrow> int \<Rightarrow> int) \<Rightarrow> 'e \<Rightarrow> nat \<Rightarrow> (int \<times> int \<times> 'e \<times> nat) option" where
  "accept_loop acc gerr ssl n =
     (case acc ssl of
        (ret, ssl') \<Rightarrow>
          (let err = gerr ssl' ret in
           if err = WC_PENDING_E then accept_loop acc gerr ssl' (Suc n)
           else Some (ret, err, ssl', Suc n)))"

text \<open>
  Lines 341 to 348, with the test that follows the loop: \<open>Inl ret\<close> is the jump to
  \<^verbatim>\<open>exit\<close>, \<open>Inr ssl'\<close> a connection that goes on.
\<close>

definition tls_accept ::
  "('e \<Rightarrow> int \<times> 'e) \<Rightarrow> ('e \<Rightarrow> int \<Rightarrow> int) \<Rightarrow> 'e \<Rightarrow> (int + 'e) option" where
  "tls_accept acc gerr ssl =
     (case accept_loop acc gerr ssl 0 of
        None \<Rightarrow> None
      | Some (ret, err, ssl', n) \<Rightarrow>
          Some (if ret \<noteq> WOLFSSL_SUCCESS then Inl ret else Inr ssl'))"

text \<open>
  What the j-th repetition sees (counted from 0): the result of \<^verbatim>\<open>wolfSSL_accept\<close> on the
  session as the calls before left it, and the error code read from it.
\<close>

fun accept_call :: "('e \<Rightarrow> int \<times> 'e) \<Rightarrow> 'e \<Rightarrow> nat \<Rightarrow> int \<times> 'e" where
  "accept_call acc ssl 0 = acc ssl"
| "accept_call acc ssl (Suc j) = accept_call acc (snd (acc ssl)) j"

definition accept_err :: "('e \<Rightarrow> int \<times> 'e) \<Rightarrow> ('e \<Rightarrow> int \<Rightarrow> int) \<Rightarrow> 'e \<Rightarrow> nat \<Rightarrow> int" where
  "accept_err acc gerr ssl j =
     gerr (snd (accept_call acc ssl j)) (fst (accept_call acc ssl j))"

subsection \<open>The connection loop of main\<close>

text \<open>
  What one pass of the loop of lines 312 to 389 gets from outside: the result of
  \<^verbatim>\<open>accept\<close>, the session \<^verbatim>\<open>wolfSSL_new\<close> returns (\<open>None\<close> for NULL), how the handshake
  behaves on it, what \<^verbatim>\<open>wolfSSL_read\<close> returns and leaves in \<^verbatim>\<open>buff\<close>, and what
  \<^verbatim>\<open>wolfSSL_write\<close> returns.
\<close>

record 'e client =
  accept_ret :: int
  wolfSSL_new :: "'e option"
  wolfSSL_accept :: "'e \<Rightarrow> int \<times> 'e"
  wolfSSL_get_error :: "'e \<Rightarrow> int \<Rightarrow> int"
  wolfSSL_read :: "int \<times> string"
  wolfSSL_write :: int

text \<open>
  The objects \<^verbatim>\<open>main\<close> makes and ties together, with \<^verbatim>\<open>HAVE_PK_CALLBACKS\<close> defined:
  \<open>PkCbInfo_new p\<close> is the creation of the \<^verbatim>\<open>PkCbInfo\<close> number \<open>p\<close>, \<open>WOLFSSL_new s\<close> of the
  session number \<open>s\<close>, and \<open>SetEccSignCtx s p\<close> the call that gives session \<open>s\<close> the
  address of context \<open>p\<close>. Sockets, reads and writes are not logged.
\<close>

datatype main_event = PkCbInfo_new nat | WOLFSSL_new nat | SetEccSignCtx nat nat

text \<open>
  How the loop ends: \<^verbatim>\<open>main\<close> returns a value, or it waits in \<^verbatim>\<open>accept\<close> for a client
  that the list does not have, or the handshake loop never ends.
\<close>

datatype outcome = Exit int | Waiting | Handshaking

text \<open>
  \<open>p\<close> is the number of the context whose address line 335 passes (\<^verbatim>\<open>&myCtx\<close>), \<open>n\<close>
  the number of the next session. The reply has 22 characters.
\<close>

fun main_loop :: "nat \<Rightarrow> nat \<Rightarrow> 'e client list \<Rightarrow> main_event list \<times> outcome" where
  "main_loop p n [] = ([], Waiting)"
| "main_loop p n (cl # cls) =
     (if accept_ret cl = - 1 then ([], Exit (- 1))
      else
        (case wolfSSL_new cl of
           None \<Rightarrow> ([], Exit (- 1))
         | Some ssl \<Rightarrow>
             (let t = [WOLFSSL_new n, SetEccSignCtx n p] in
              case tls_accept (wolfSSL_accept cl) (wolfSSL_get_error cl) ssl of
                None \<Rightarrow> (t, Handshaking)
              | Some (Inl ret) \<Rightarrow> (t, Exit ret)
              | Some (Inr ssl') \<Rightarrow>
                  (let (ret, buff) = wolfSSL_read cl in
                   if ret = - 1 then (t, Exit ret)
                   else if wolfSSL_write cl \<noteq> 22 then (t, Exit (wolfSSL_write cl))
                   else if take 8 buff = ''shutdown'' then (t, Exit 0)
                   else (let (t', out) = main_loop p (Suc n) cls in (t @ t', out))))))"

text \<open>
  \<^verbatim>\<open>main\<close>: the context of lines 200 to 203, then the set-up of the socket and of the
  \<^verbatim>\<open>WOLFSSL_CTX\<close> (lines 209 to 308), which jumps to \<^verbatim>\<open>exit\<close> with a value (\<open>Some ret\<close>)
  or reaches the loop (\<open>None\<close>).
\<close>

definition main :: "int option \<Rightarrow> 'e client list \<Rightarrow> main_event list \<times> outcome" where
  "main pre cls =
     (case pre of
        Some ret \<Rightarrow> ([PkCbInfo_new 0], Exit ret)
      | None \<Rightarrow> (let (t, out) = main_loop 0 0 cls in (PkCbInfo_new 0 # t, out)))"

fun contexts_created :: "main_event list \<Rightarrow> nat list" where
  "contexts_created [] = []"
| "contexts_created (PkCbInfo_new p # es) = p # contexts_created es"
| "contexts_created (_ # es) = contexts_created es"

fun attached :: "main_event list \<Rightarrow> (nat \<times> nat) list" where
  "attached [] = []"
| "attached (SetEccSignCtx s p # es) = (s, p) # attached es"
| "attached (_ # es) = attached es"

text \<open>
  The sessions a run creates, and the events of \<open>k\<close> sessions numbered from \<open>n\<close>, each
  created and at once given the address of context \<open>p\<close>.
\<close>

fun sessions_created :: "main_event list \<Rightarrow> nat list" where
  "sessions_created [] = []"
| "sessions_created (WOLFSSL_new s # es) = s # sessions_created es"
| "sessions_created (_ # es) = sessions_created es"

definition session_events :: "nat \<Rightarrow> nat \<Rightarrow> nat \<Rightarrow> main_event list" where
  "session_events p n k =
     concat (map (\<lambda>s. [WOLFSSL_new s, SetEccSignCtx s p]) [n ..< n + k])"

text \<open>
  A client whose connection is accepted and gets a session, and a client whose pass of
  the loop runs to its end, so that the loop goes on to the next client: the handshake
  succeeds, the read and the write succeed, and the message is not the shutdown command.
\<close>

definition gets_session :: "'e client \<Rightarrow> bool" where
  "gets_session cl \<longleftrightarrow> accept_ret cl \<noteq> - 1 \<and> wolfSSL_new cl \<noteq> None"

definition completes :: "'e client \<Rightarrow> bool" where
  "completes cl \<longleftrightarrow>
     accept_ret cl \<noteq> - 1 \<and>
     (case wolfSSL_new cl of
        None \<Rightarrow> False
      | Some ssl \<Rightarrow>
          (case tls_accept (wolfSSL_accept cl) (wolfSSL_get_error cl) ssl of
             Some (Inr ssl') \<Rightarrow> True
           | _ \<Rightarrow> False)) \<and>
     fst (wolfSSL_read cl) \<noteq> - 1 \<and> wolfSSL_write cl = 22 \<and>
     take 8 (snd (wolfSSL_read cl)) \<noteq> ''shutdown''"

subsection \<open>Concrete inputs\<close>

text \<open>
  An empty heap, the arguments of a call with a digest of 32 zero bytes and a key buffer
  of the caller, and worlds over \<open>nat\<close> as the key type: one where the key file is read,
  converted, decoded and used, and variants where a step fails.
\<close>

definition heap0 :: heap where
  "heap0 = \<lparr>live = [], nmalloc = 0, bad_free = []\<rparr>"

definition args0 :: sign_args where
  "args0 = \<lparr>a_ssl = 1, a_in = replicate 32 0, a_inSz = 32, a_out = replicate 80 0,
            a_outSz = 80, a_key = Foreign 0, a_keySz = 121\<rparr>"

definition world_ok :: "nat world" where
  "world_ok =
     \<lparr>XFOPEN = (\<lambda>p. if p = KEY_FILE then Some \<lparr>fdata = [45, 45, 45], rd_fail = False\<rparr>
                     else None),
      malloc_ok = (\<lambda>_. True),
      wc_KeyPemToDer = (\<lambda>pem n m. (2, [48, 119])),
      wc_ecc_init = (\<lambda>k. (0, 1)),
      wc_EccPrivateKeyDecode = (\<lambda>der k n. (0, 2)),
      wolfSSL_GetRNG = (\<lambda>s. s + 100),
      wc_ecc_sign_hash = (\<lambda>i n out m r k. (0, [48, 6], 2, k)),
      wc_ecc_free = (\<lambda>k. 0)\<rparr>"

definition world_nofile :: "nat world" where
  "world_nofile = world_ok\<lparr>XFOPEN := (\<lambda>p. None)\<rparr>"

definition world_empty :: "nat world" where
  "world_empty = world_ok\<lparr>XFOPEN := (\<lambda>p. Some \<lparr>fdata = [], rd_fail = False\<rparr>)\<rparr>"

definition world_rdfail :: "nat world" where
  "world_rdfail =
     world_ok\<lparr>XFOPEN := (\<lambda>p. Some \<lparr>fdata = [45, 45, 45], rd_fail = True\<rparr>)\<rparr>"

definition world_badpem :: "nat world" where
  "world_badpem = world_ok\<lparr>wc_KeyPemToDer := (\<lambda>pem n m. (- 1, []))\<rparr>"

definition world_huge :: "nat world" where
  "world_huge =
     world_ok\<lparr>XFOPEN := (\<lambda>p. Some \<lparr>fdata = replicate 4294967297 0, rd_fail = False\<rparr>)\<rparr>"

text \<open>A context on which the call before returned \<^verbatim>\<open>WC_PENDING_E\<close>.\<close>

definition ctx_pending :: "string \<Rightarrow> nat PkCbInfo" where
  "ctx_pending path = \<lparr>keyFile = Some path, key = 0, state = 1\<rparr>"

text \<open>
  A client whose handshake answers \<^verbatim>\<open>WC_PENDING_E\<close> once and then succeeds, and who sends
  a message other than the shutdown command.
\<close>

definition client_retry :: "nat client" where
  "client_retry =
     \<lparr>accept_ret = 4, wolfSSL_new = Some 0,
      wolfSSL_accept = (\<lambda>e. (if e = 0 then - 1 else 1, Suc e)),
      wolfSSL_get_error = (\<lambda>e ret. if ret = 1 then 0 else WC_PENDING_E),
      wolfSSL_read = (5, ''hello''), wolfSSL_write = 22\<rparr>"

section \<open>Properties\<close>

subsection \<open>Auxiliary facts\<close>

lemmas wolf_codes =
  WC_PENDING_E_def MEMORY_E_def BUFFER_E_def BAD_FUNC_ARG_def BAD_PATH_ERROR_def
  WOLFSSL_SUCCESS_def

lemmas run_defs =
  myEccSign_def sign_work_def load_key_file_def load_file_def malloc_def free_def Let_def

lemma load_file_ret_cases:
  "lf_ret (load_file w fname h) \<in> {0, BAD_FUNC_ARG, BAD_PATH_ERROR, MEMORY_E, BUFFER_E, - 1}"
  by (simp add: load_file_def Let_def split: option.split prod.split)

lemma load_file_not_pending: "lf_ret (load_file w fname h) \<noteq> WC_PENDING_E"
  using load_file_ret_cases [of w fname h] by (auto simp: wolf_codes)

lemma load_key_file_not_pending:
  assumes "never_pending w"
  shows "lk_ret (load_key_file w fname d0 l0 h) \<noteq> WC_PENDING_E"
proof -
  have p: "\<And>p n m r der. wc_KeyPemToDer w p n m = (r, der) \<Longrightarrow> r \<noteq> WC_PENDING_E"
    using assms unfolding never_pending_def by (metis fst_conv)
  show ?thesis
    using load_file_not_pending [of w fname h] p
    by (auto simp: load_key_file_def Let_def wolf_codes split: prod.split)
qed

lemma sign_work_not_pending:
  assumes "never_pending w"
  shows "r_ret (sign_work async w a c h) \<noteq> WC_PENDING_E"
proof -
  have i: "\<And>k r k'. wc_ecc_init w k = (r, k') \<Longrightarrow> r \<noteq> WC_PENDING_E"
    using assms unfolding never_pending_def by (metis fst_conv)
  have d: "\<And>x k n r k'. wc_EccPrivateKeyDecode w x k n = (r, k') \<Longrightarrow> r \<noteq> WC_PENDING_E"
    using assms unfolding never_pending_def by (metis fst_conv)
  have s: "\<And>i n out m g k r z. wc_ecc_sign_hash w i n out m g k = (r, z) \<Longrightarrow> r \<noteq> WC_PENDING_E"
    using assms unfolding never_pending_def by (metis fst_conv)
  show ?thesis
    using load_key_file_not_pending [OF assms, of "keyFile c" "a_key a" "a_keySz a" h] i d s
    by (auto simp: sign_work_def Let_def split: prod.split)
qed

lemma sign_work_state:
  "state (r_ctx (sign_work async w a c h)) = (if async then 0 else state c)"
  by (simp add: sign_work_def Let_def split: prod.split)

lemma never_pending_world_ok: "never_pending world_ok"
  by (simp add: never_pending_def world_ok_def wolf_codes)

lemma never_pending_world_nofile: "never_pending world_nofile"
  by (simp add: never_pending_def world_nofile_def world_ok_def wolf_codes)

subsection \<open>The callback\<close>

text \<open>
  C1. With \<^verbatim>\<open>WOLFSSL_ASYNC_CRYPT\<close> defined, a call of \<^verbatim>\<open>myEccSign\<close> on a context whose
  \<^verbatim>\<open>state\<close> is 0 returns \<^verbatim>\<open>WC_PENDING_E\<close> and leaves the state at 1. It makes the two
  \<^verbatim>\<open>printf\<close> calls and nothing else: no call on a file, no call of a wolfSSL primitive,
  the heap and the output buffer as they were, whatever the world is.
\<close>

theorem myEccSign_idle_returns_pending:
  assumes "state c = 0"
  shows "myEccSign True w a c h =
           \<lparr>r_ret = WC_PENDING_E, r_ctx = c\<lparr>state := 1\<rparr>, r_out = a_out a,
            r_outSz = a_outSz a, r_heap = h,
            r_trace = [Printf ''PK ECC Sign: inSz %u, keySz %u'',
                       Printf ''PK ECC Sign: Async Simulate'']\<rparr>
         \<and> filter is_file_event (r_trace (myEccSign True w a c h)) = []
         \<and> filter is_crypto_event (r_trace (myEccSign True w a c h)) = []"
  using assms by (simp add: myEccSign_def)

theorem myEccSign_idle_returns_pending_witness:
  "state (myCtx (0::nat)) = 0
   \<and> r_ret (myEccSign True world_ok args0 (myCtx 0) heap0) = WC_PENDING_E
   \<and> state (r_ctx (myEccSign True world_ok args0 (myCtx 0) heap0)) = 1
   \<and> r_heap (myEccSign True world_ok args0 (myCtx 0) heap0) = heap0
   \<and> filter is_file_event (r_trace (myEccSign True world_ok args0 (myCtx 0) heap0)) = []
   \<and> filter is_crypto_event (r_trace (myEccSign True world_ok args0 (myCtx 0) heap0)) = []"
  using myEccSign_idle_returns_pending [of "myCtx 0" world_ok args0 heap0]
  by (simp add: myCtx_def)

lemma sign_calls_state_sync: "state c = 0 \<Longrightarrow> state (sign_calls False c cs) = 0"
  by (induction cs arbitrary: c) (auto simp: myEccSign_def sign_work_state)

text \<open>
  C3. A call of \<^verbatim>\<open>myEccSign\<close> that returns anything but \<^verbatim>\<open>WC_PENDING_E\<close>, a signature
  length or an error of the loader, of the decoder or of the signing, leaves the state
  of the context at 0. With \<^verbatim>\<open>WOLFSSL_ASYNC_CRYPT\<close> this holds on every context; without
  it the code never writes the state, and it holds on every context that the context of
  \<^verbatim>\<open>main\<close> becomes through calls of the callback.
\<close>

theorem myEccSign_completing_leaves_idle:
  assumes "async \<or> c = sign_calls async (myCtx z) cs"
    and "r_ret (myEccSign async w a c h) \<noteq> WC_PENDING_E"
  shows "state (r_ctx (myEccSign async w a c h)) = 0"
proof (cases async)
  case True
  with assms(2) show ?thesis
    by (auto simp: myEccSign_def sign_work_state split: if_splits)
next
  case False
  with assms(1) have "state c = 0"
    by (simp add: sign_calls_state_sync myCtx_def)
  with False show ?thesis
    by (simp add: myEccSign_def sign_work_state)
qed

theorem myEccSign_completing_leaves_idle_witness:
  "r_ret (myEccSign True world_ok args0 (ctx_pending KEY_FILE) heap0) \<noteq> WC_PENDING_E
   \<and> state (r_ctx (myEccSign True world_ok args0 (ctx_pending KEY_FILE) heap0)) = 0
   \<and> r_ret (myEccSign False world_nofile args0
        (sign_calls False (myCtx 0) [(world_ok, args0, heap0)]) heap0) \<noteq> WC_PENDING_E
   \<and> state (r_ctx (myEccSign False world_nofile args0
        (sign_calls False (myCtx 0) [(world_ok, args0, heap0)]) heap0)) = 0"
proof -
  have a: "r_ret (myEccSign True world_ok args0 (ctx_pending KEY_FILE) heap0) \<noteq> WC_PENDING_E"
    using sign_work_not_pending [OF never_pending_world_ok]
    by (simp add: myEccSign_def ctx_pending_def)
  have b: "r_ret (myEccSign False world_nofile args0
        (sign_calls False (myCtx 0) [(world_ok, args0, heap0)]) heap0) \<noteq> WC_PENDING_E"
    using sign_work_not_pending [OF never_pending_world_nofile]
    by (simp add: myEccSign_def)
  have t: "True \<or> ctx_pending KEY_FILE = sign_calls True (myCtx 0) []"
    by simp
  have f: "False \<or> sign_calls False (myCtx 0) [(world_ok, args0, heap0)]
             = sign_calls False (myCtx (0::nat)) [(world_ok, args0, heap0)]"
    by simp
  show ?thesis
    using myEccSign_completing_leaves_idle [OF t a] myEccSign_completing_leaves_idle [OF f b] a b
    by blast
qed

text \<open>
  C4. The key file does not exist, the context is one on which the call before
  returned \<^verbatim>\<open>WC_PENDING_E\<close>, and the key buffer is the caller's. The call returns
  \<^verbatim>\<open>BAD_PATH_ERROR\<close> and leaves the state at 0, but on its way out it passes the caller's
  key buffer to \<^verbatim>\<open>free\<close>: \<^verbatim>\<open>load_key_file\<close> failed before it assigned \<^verbatim>\<open>keyBuf\<close>, which
  still holds \<^verbatim>\<open>key\<close>. The one pointer freed is a pointer this program never allocated.
\<close>

theorem myEccSign_missing_file_frees_caller_key:
  "r_ret (myEccSign True world_nofile args0 (ctx_pending ''/nonexistent'') heap0) = BAD_PATH_ERROR
   \<and> state (r_ctx (myEccSign True world_nofile args0 (ctx_pending ''/nonexistent'') heap0)) = 0
   \<and> a_key args0 = Foreign 0
   \<and> freed (r_trace (myEccSign True world_nofile args0 (ctx_pending ''/nonexistent'') heap0))
       = [Foreign 0]
   \<and> bad_free (r_heap (myEccSign True world_nofile args0 (ctx_pending ''/nonexistent'') heap0))
       = [Foreign 0]"
  by (simp add: run_defs world_nofile_def world_ok_def args0_def ctx_pending_def heap0_def
      wolf_codes)

subsection \<open>What a call that does the work loads and releases\<close>

text \<open>
  Every call that gets past line 158 opens the file that the context names; a key that
  was decoded is freed before the call returns; and when \<^verbatim>\<open>load_file\<close> succeeded, every
  block allocated during the call has been freed at its end.
\<close>

lemma load_file_opens:
  "\<exists>t. lf_trace (load_file w (Some path) h) = FOpen path # t"
  by (simp add: load_file_def Let_def split: option.split prod.split)

lemma load_key_file_opens:
  "\<exists>t. lk_trace (load_key_file w (Some path) d l h) = FOpen path # t"
  using load_file_opens [of w path h]
  by (auto simp: load_key_file_def Let_def split: prod.split)

lemma sign_work_opens_key_file:
  assumes "keyFile c = Some path"
  shows "\<exists>t. r_trace (sign_work async w a c h) =
           Printf ''PK ECC Sign: inSz %u, keySz %u'' # FOpen path # t"
  using load_key_file_opens [of w path "a_key a" "a_keySz a" h] assms
  by (auto simp: sign_work_def Let_def split: prod.split)

lemma load_file_no_key_event: "filter is_key_event (lf_trace (load_file w fname h)) = []"
  by (simp add: load_file_def Let_def split: option.split prod.split)

lemma load_key_file_no_key_event:
  "filter is_key_event (lk_trace (load_key_file w fname d l h)) = []"
  by (simp add: load_key_file_def Let_def load_file_no_key_event split: prod.split)

lemma sign_work_key_lifetime:
  "filter is_key_event (r_trace (sign_work async w a c h))
     \<in> {[], [EccInit], [EccInit, EccPrivateKeyDecode, EccFree]}"
  by (simp add: sign_work_def Let_def load_key_file_no_key_event split: prod.split)

lemma fresh_block:
  assumes "heap_ok h" and "nmalloc h < n"
  shows "n \<notin> set (live h)"
  using assms by (auto simp: heap_ok_def list_all_iff)

lemma load_file_success:
  assumes "lf_ret (load_file w fname h) = 0"
  shows "lf_buf (load_file w fname h) = Block (Suc (nmalloc h))
       \<and> lf_heap (load_file w fname h)
           = h\<lparr>live := Suc (nmalloc h) # live h, nmalloc := Suc (nmalloc h)\<rparr>"
  using assms
  by (auto simp: load_file_def malloc_def Let_def wolf_codes
      split: option.splits prod.splits if_splits)

lemma sign_work_heap:
  "r_heap (sign_work async w a c h) =
     free (lk_derBuf (load_key_file w (keyFile c) (a_key a) (a_keySz a) h))
       (lk_heap (load_key_file w (keyFile c) (a_key a) (a_keySz a) h))"
  by (simp add: sign_work_def Let_def split: prod.split)

lemma load_key_file_releases:
  assumes "heap_ok h" and "lf_ret (load_file w fname h) = 0"
  shows "live (free (lk_derBuf (load_key_file w fname d l h))
                (lk_heap (load_key_file w fname d l h))) = live h"
proof -
  let ?n = "nmalloc h"
  have f1: "Suc ?n \<notin> set (live h)"
    using assms(1) by (simp add: fresh_block)
  have f2: "Suc (Suc ?n) \<notin> set (live h)"
    using assms(1) by (simp add: fresh_block)
  note lf = load_file_success [OF assms(2)]
  show ?thesis
    using f1 f2
    by (simp add: load_key_file_def assms(2) lf malloc_def free_def Let_def
        split: prod.split)
qed

lemma sign_work_releases_blocks:
  assumes "heap_ok h" and "lf_ret (load_file w (keyFile c) h) = 0"
  shows "live (r_heap (sign_work async w a c h)) = live h"
  unfolding sign_work_heap by (rule load_key_file_releases [OF assms])

text \<open>
  C5. A path that keeps a block: the key file can be opened and has three bytes, but
  \<^verbatim>\<open>fread\<close> fails. \<^verbatim>\<open>load_file\<close> has allocated its buffer by then and returns -1 with
  the buffer in \<^verbatim>\<open>*buf\<close>; \<^verbatim>\<open>load_key_file\<close> returns at once, without freeing it. The call of \<^verbatim>\<open>myEccSign\<close> ends
  with that block still allocated: the only \<^verbatim>\<open>free\<close> it made was of the caller's key
  buffer.
\<close>

theorem myEccSign_read_failure_leaks_buffer:
  "r_ret (myEccSign True world_rdfail args0 (ctx_pending KEY_FILE) heap0) = - 1
   \<and> live heap0 = []
   \<and> live (r_heap (myEccSign True world_rdfail args0 (ctx_pending KEY_FILE) heap0)) = [1]
   \<and> r_trace (myEccSign True world_rdfail args0 (ctx_pending KEY_FILE) heap0) =
       [Printf ''PK ECC Sign: inSz %u, keySz %u'',
        FOpen KEY_FILE, FSeekEnd, FTell, Rewind,
        Malloc 3 (Block 1), FRead 3, FClose, Free (Foreign 0),
        Printf ''PK ECC Sign: ret %d outSz %u'']"
  by (simp add: run_defs world_rdfail_def world_ok_def args0_def ctx_pending_def heap0_def
      wolf_codes KEY_FILE_def)

subsection \<open>The call after a pending one\<close>

text \<open>
  When a call has returned \<^verbatim>\<open>WC_PENDING_E\<close>, the next call on the context it left is the
  work of lines 160 to 182 and does not return \<^verbatim>\<open>WC_PENDING_E\<close> again, the wolfSSL
  primitives being taken not to return it themselves. When the key file loads, that work
  makes no invalid \<^verbatim>\<open>free\<close> and reaches line 177, which resets the state.
\<close>

lemma retry_not_pending:
  assumes "never_pending w1" and "never_pending w2"
    and "r_ret (myEccSign async w1 a1 c h1) = WC_PENDING_E"
  shows "r_ret (myEccSign async w2 a2 (r_ctx (myEccSign async w1 a1 c h1)) h2) \<noteq> WC_PENDING_E
       \<and> myEccSign async w2 a2 (r_ctx (myEccSign async w1 a1 c h1)) h2
           = sign_work async w2 a2 (c\<lparr>state := 1\<rparr>) h2"
proof -
  have first: "async \<and> state c = 0"
    using assms(3) sign_work_not_pending [OF assms(1), of async a1 c h1]
    by (auto simp: myEccSign_def split: if_splits)
  then have c1: "r_ctx (myEccSign async w1 a1 c h1) = c\<lparr>state := 1\<rparr>"
    by (simp add: myEccSign_def)
  have second:
    "myEccSign async w2 a2 (c\<lparr>state := 1\<rparr>) h2 = sign_work async w2 a2 (c\<lparr>state := 1\<rparr>) h2"
    by (simp add: myEccSign_def)
  show ?thesis
    unfolding c1 second
    using sign_work_not_pending [OF assms(2), of async a2 "c\<lparr>state := 1\<rparr>" h2]
    by simp
qed

lemma load_key_file_loaded:
  assumes "lk_ret (load_key_file w fname d l h) = 0"
  shows "lf_ret (load_file w fname h) = 0"
proof (rule ccontr)
  assume "lf_ret (load_file w fname h) \<noteq> 0"
  then show False
    using assms by (simp add: load_key_file_def Let_def)
qed

lemma load_key_file_loaded_frees_own_block:
  assumes "lk_ret (load_key_file w fname d l h) = 0"
  shows "bad_free (free (lk_derBuf (load_key_file w fname d l h))
                     (lk_heap (load_key_file w fname d l h))) = bad_free h"
proof -
  have lf0: "lf_ret (load_file w fname h) = 0"
    by (rule load_key_file_loaded [OF assms])
  note lf = load_file_success [OF lf0]
  show ?thesis
    using assms
    by (auto simp: load_key_file_def lf0 lf malloc_def free_def Let_def wolf_codes
        split: prod.splits if_splits)
qed

lemma sign_work_key_loaded:
  assumes "lk_ret (load_key_file w (keyFile c) (a_key a) (a_keySz a) h) = 0"
  shows "bad_free (r_heap (sign_work True w a c h)) = bad_free h
       \<and> state (r_ctx (sign_work True w a c h)) = 0"
  unfolding sign_work_heap
  by (simp add: load_key_file_loaded_frees_own_block [OF assms] sign_work_state)


subsection \<open>The loader\<close>

lemma sint_small_size:
  assumes "n < 2 ^ 31"
  shows "sint (word_of_nat n :: 32 word) = int n"
proof -
  have "sint (word_of_nat n :: 32 word) = signed_take_bit 31 (int n)"
    by (simp add: signed_of_nat)
  also have "\<dots> = int n"
    using assms by (intro signed_take_bit_int_eq_self) auto
  finally show ?thesis .
qed

text \<open>
  The outcomes of \<^verbatim>\<open>load_file\<close> on a file of fewer than 2^31 bytes, the sizes an
  \<^verbatim>\<open>int\<close> holds: \<^verbatim>\<open>BAD_PATH_ERROR\<close> when the file cannot be opened, \<^verbatim>\<open>BUFFER_E\<close> when
  it is empty, \<^verbatim>\<open>MEMORY_E\<close> when the buffer cannot be allocated, -1 when the file cannot
  be read in full, and 0 with the whole contents in the buffer otherwise; a return value
  of 0 always comes with the whole contents. The four error values and 0 are distinct.
\<close>

lemma load_file_contract:
  "(XFOPEN w path = None \<longrightarrow> lf_ret (load_file w (Some path) h) = BAD_PATH_ERROR)
   \<and> (\<forall>f. XFOPEN w path = Some f \<and> length (fdata f) < 2 ^ 31 \<longrightarrow>
        (fdata f = [] \<longrightarrow> lf_ret (load_file w (Some path) h) = BUFFER_E)
        \<and> (fdata f \<noteq> [] \<and> \<not> malloc_ok w (nmalloc h) \<longrightarrow>
             lf_ret (load_file w (Some path) h) = MEMORY_E)
        \<and> (fdata f \<noteq> [] \<and> malloc_ok w (nmalloc h) \<and> rd_fail f \<longrightarrow>
             lf_ret (load_file w (Some path) h) = - 1)
        \<and> (fdata f \<noteq> [] \<and> malloc_ok w (nmalloc h) \<and> \<not> rd_fail f \<longrightarrow>
             lf_ret (load_file w (Some path) h) = 0
             \<and> lf_data (load_file w (Some path) h) = fdata f
             \<and> lf_len (load_file w (Some path) h) = length (fdata f))
        \<and> (lf_ret (load_file w (Some path) h) = 0 \<longrightarrow>
             lf_data (load_file w (Some path) h) = fdata f \<and> fdata f \<noteq> [] \<and> \<not> rd_fail f))
   \<and> distinct [0, BAD_PATH_ERROR, - 1, BUFFER_E, MEMORY_E]"
  by (auto simp: load_file_def malloc_def Let_def sint_small_size wolf_codes split: prod.split)

lemma load_file_contract_instances:
  "lf_ret (load_file world_nofile (Some KEY_FILE) heap0) = BAD_PATH_ERROR
   \<and> lf_ret (load_file world_empty (Some KEY_FILE) heap0) = BUFFER_E
   \<and> lf_ret (load_file world_rdfail (Some KEY_FILE) heap0) = - 1
   \<and> lf_ret (load_file world_ok (Some KEY_FILE) heap0) = 0
   \<and> lf_data (load_file world_ok (Some KEY_FILE) heap0) = [45, 45, 45]"
  using load_file_contract [of world_nofile KEY_FILE heap0]
    load_file_contract [of world_empty KEY_FILE heap0]
    load_file_contract [of world_rdfail KEY_FILE heap0]
    load_file_contract [of world_ok KEY_FILE heap0]
  by (simp add: world_nofile_def world_empty_def world_rdfail_def world_ok_def heap0_def)

text \<open>
  C6. A file of 2^32 + 1 bytes that can be opened and read. \<^verbatim>\<open>ftell\<close> reports its size in
  a \<^verbatim>\<open>long\<close>, the cast to \<^verbatim>\<open>int\<close> at line 88 leaves 1, and \<^verbatim>\<open>load_file\<close> allocates one
  byte, reads one byte and returns 0: a success with the first byte of the file in the
  buffer, not its whole contents.
\<close>

theorem load_file_truncates_huge_file:
  "XFOPEN world_huge KEY_FILE = Some \<lparr>fdata = replicate 4294967297 0, rd_fail = False\<rparr>
   \<and> lf_ret (load_file world_huge (Some KEY_FILE) heap0) = 0
   \<and> lf_len (load_file world_huge (Some KEY_FILE) heap0) = 1
   \<and> lf_data (load_file world_huge (Some KEY_FILE) heap0) = [0]
   \<and> lf_data (load_file world_huge (Some KEY_FILE) heap0) \<noteq> replicate 4294967297 0"
proof -
  have "length (replicate 4294967297 (0::byte)) \<noteq> length [0::byte]" by simp
  then have ne: "[0::byte] \<noteq> replicate 4294967297 0" by metis
  show ?thesis
    using ne by (simp add: load_file_def malloc_def Let_def world_huge_def world_ok_def heap0_def)
qed

subsection \<open>The generator\<close>

lemma sign_rngs_append: "sign_rngs (xs @ ys) = sign_rngs xs @ sign_rngs ys"
  by (induction xs rule: sign_rngs.induct) simp_all

lemma load_file_no_rng: "filter is_rng_event (lf_trace (load_file w fname h)) = []"
  by (simp add: load_file_def Let_def split: option.split prod.split)

lemma load_key_file_no_rng: "filter is_rng_event (lk_trace (load_key_file w fname d l h)) = []"
  by (simp add: load_key_file_def Let_def load_file_no_rng split: prod.split)

lemma load_file_no_sign: "sign_rngs (lf_trace (load_file w fname h)) = []"
  by (simp add: load_file_def Let_def split: option.split prod.split)

lemma load_key_file_no_sign: "sign_rngs (lk_trace (load_key_file w fname d l h)) = []"
  by (simp add: load_key_file_def Let_def load_file_no_sign sign_rngs_append split: prod.split)

text \<open>
  C8. The only calls of \<^verbatim>\<open>myEccSign\<close> that involve a random generator are, in this order,
  \<^verbatim>\<open>wolfSSL_GetRNG\<close> on the session \<^verbatim>\<open>ssl\<close> of the call and \<^verbatim>\<open>wc_ecc_sign_hash\<close> with the
  generator that call returned; no generator is made or seeded. When the key file is
  loaded and the key is initialised and decoded, the call signs once, with the session's
  generator, and its return value, signature and signature length are those of
  \<^verbatim>\<open>wc_ecc_sign_hash\<close> on the digest with that generator.
\<close>

theorem myEccSign_signs_with_session_rng:
  "(filter is_rng_event (r_trace (myEccSign async w a c h)) = []
    \<or> filter is_rng_event (r_trace (myEccSign async w a c h))
         = [GetRNG (a_ssl a), SignHash (wolfSSL_GetRNG w (a_ssl a))])
   \<and> (\<not> (async \<and> state c = 0)
        \<and> lk_ret (load_key_file w (keyFile c) (a_key a) (a_keySz a) h) = 0
        \<and> wc_ecc_init w (key c) = (0, k1)
        \<and> wc_EccPrivateKeyDecode w (lk_der (load_key_file w (keyFile c) (a_key a) (a_keySz a) h))
             k1 (lk_derLen (load_key_file w (keyFile c) (a_key a) (a_keySz a) h)) = (0, k2)
      \<longrightarrow> sign_rngs (r_trace (myEccSign async w a c h)) = [wolfSSL_GetRNG w (a_ssl a)]
          \<and> (r_ret (myEccSign async w a c h), r_out (myEccSign async w a c h),
              r_outSz (myEccSign async w a c h))
            = (case wc_ecc_sign_hash w (a_in a) (a_inSz a) (a_out a) (a_outSz a)
                      (wolfSSL_GetRNG w (a_ssl a)) k2
               of (rs, out, outSz, k3) \<Rightarrow> (rs, out, outSz)))"
proof -
  let ?lk = "load_key_file w (keyFile c) (a_key a) (a_keySz a) h"
  have norng: "filter is_rng_event (lk_trace ?lk) = []"
    by (rule load_key_file_no_rng)
  have nosign: "sign_rngs (lk_trace ?lk) = []"
    by (rule load_key_file_no_sign)
  show ?thesis
    by (auto simp: myEccSign_def sign_work_def Let_def norng nosign sign_rngs_append
        split: prod.split)
qed

theorem myEccSign_signs_with_session_rng_witness:
  "wolfSSL_GetRNG world_ok (a_ssl args0) = 101
   \<and> sign_rngs (r_trace (myEccSign True world_ok args0 (ctx_pending KEY_FILE) heap0)) = [101]
   \<and> r_ret (myEccSign True world_ok args0 (ctx_pending KEY_FILE) heap0) = 0
   \<and> r_out (myEccSign True world_ok args0 (ctx_pending KEY_FILE) heap0) = [48, 6]
   \<and> r_outSz (myEccSign True world_ok args0 (ctx_pending KEY_FILE) heap0) = 2"
proof -
  let ?c = "ctx_pending KEY_FILE"
  let ?lk = "load_key_file world_ok (keyFile ?c) (a_key args0) (a_keySz args0) heap0"
  have s: "\<not> (True \<and> state ?c = 0)"
    by (simp add: ctx_pending_def)
  have l: "lk_ret ?lk = 0"
    by (simp add: load_key_file_def load_file_def malloc_def Let_def world_ok_def
        ctx_pending_def heap0_def)
  have i: "wc_ecc_init world_ok (key ?c) = (0, 1)"
    by (simp add: world_ok_def)
  have d: "wc_EccPrivateKeyDecode world_ok (lk_der ?lk) 1 (lk_derLen ?lk) = (0, 2)"
    by (simp add: world_ok_def)
  show ?thesis
    using myEccSign_signs_with_session_rng [of True world_ok args0 ?c heap0 1 2] s l i d
    by (simp add: world_ok_def args0_def)
qed

subsection \<open>The pointer the callback frees\<close>

lemma load_key_file_load_file_fails:
  assumes "lf_ret (load_file w fname h) \<noteq> 0"
  shows "load_key_file w fname d0 l0 h =
           \<lparr>lk_ret = lf_ret (load_file w fname h), lk_derBuf = d0, lk_derLen = l0, lk_der = [],
            lk_heap = lf_heap (load_file w fname h), lk_trace = lf_trace (load_file w fname h)\<rparr>"
  using assms by (simp add: load_key_file_def Let_def)

lemma freed_append: "freed (xs @ ys) = freed xs @ freed ys"
  by (induction xs rule: freed.induct) simp_all

lemma load_file_frees_nothing: "freed (lf_trace (load_file w fname h)) = []"
  by (simp add: load_file_def Let_def split: option.split prod.split)

lemma load_file_bad_free: "bad_free (lf_heap (load_file w fname h)) = bad_free h"
  by (simp add: load_file_def malloc_def Let_def split: option.split prod.split)

text \<open>
  C10, as the code has it. When \<^verbatim>\<open>load_file\<close> fails inside \<^verbatim>\<open>load_key_file\<close> (the path is
  NULL, the file cannot be opened, is empty, cannot be read, or its buffer cannot be
  allocated), \<^verbatim>\<open>load_key_file\<close> returns before it assigns \<^verbatim>\<open>*derBuf\<close>. A call of
  \<^verbatim>\<open>myEccSign\<close> that gets past line 158 then returns the error of \<^verbatim>\<open>load_file\<close>, and the
  one pointer it passes to \<^verbatim>\<open>free\<close> is its argument \<^verbatim>\<open>key\<close>; when that is memory of the
  caller, the call has freed a buffer that it does not own.
\<close>

theorem myEccSign_load_file_failure_frees_caller_key:
  assumes "\<not> (async \<and> state c = 0)"
    and "lf_ret (load_file w (keyFile c) h) \<noteq> 0"
  shows "lk_derBuf (load_key_file w (keyFile c) (a_key a) (a_keySz a) h) = a_key a
       \<and> r_ret (myEccSign async w a c h) = lf_ret (load_file w (keyFile c) h)
       \<and> freed (r_trace (myEccSign async w a c h)) = [a_key a]
       \<and> r_heap (myEccSign async w a c h) = free (a_key a) (lf_heap (load_file w (keyFile c) h))
       \<and> (\<forall>n. a_key a = Foreign n \<longrightarrow>
            bad_free (r_heap (myEccSign async w a c h)) = bad_free h @ [Foreign n])"
proof -
  let ?lf = "load_file w (keyFile c) h"
  have m: "myEccSign async w a c h = sign_work async w a c h"
    using assms(1) by (auto simp: myEccSign_def)
  have lk: "load_key_file w (keyFile c) (a_key a) (a_keySz a) h =
              \<lparr>lk_ret = lf_ret ?lf, lk_derBuf = a_key a, lk_derLen = a_keySz a, lk_der = [],
               lk_heap = lf_heap ?lf, lk_trace = lf_trace ?lf\<rparr>"
    by (rule load_key_file_load_file_fails [OF assms(2)])
  have d: "lk_derBuf (load_key_file w (keyFile c) (a_key a) (a_keySz a) h) = a_key a"
    by (simp add: lk)
  have r: "r_ret (sign_work async w a c h) = lf_ret ?lf"
    using assms(2) by (simp add: sign_work_def Let_def lk)
  have f: "freed (r_trace (sign_work async w a c h)) = [a_key a]"
    using assms(2) by (simp add: sign_work_def Let_def lk freed_append load_file_frees_nothing)
  have hp: "r_heap (sign_work async w a c h) = free (a_key a) (lf_heap ?lf)"
    using assms(2) by (simp add: sign_work_def Let_def lk)
  have b: "\<forall>n. a_key a = Foreign n \<longrightarrow>
            bad_free (r_heap (sign_work async w a c h)) = bad_free h @ [Foreign n]"
    unfolding hp by (simp add: free_def load_file_bad_free)
  show ?thesis
    unfolding m using d r f hp b by blast
qed

theorem myEccSign_load_file_failure_frees_caller_key_witness:
  "\<not> (True \<and> state (ctx_pending ''/nonexistent'') = 0)
   \<and> lf_ret (load_file world_nofile (keyFile (ctx_pending ''/nonexistent'')) heap0) \<noteq> 0
   \<and> a_key args0 = Foreign 0
   \<and> freed (r_trace (myEccSign True world_nofile args0 (ctx_pending ''/nonexistent'') heap0))
       = [Foreign 0]
   \<and> bad_free (r_heap (myEccSign True world_nofile args0 (ctx_pending ''/nonexistent'') heap0))
       = [Foreign 0]"
proof -
  have s: "\<not> (True \<and> state (ctx_pending ''/nonexistent'') = 0)"
    by (simp add: ctx_pending_def)
  have l: "lf_ret (load_file world_nofile (keyFile (ctx_pending ''/nonexistent'')) heap0) \<noteq> 0"
    by (simp add: load_file_def world_nofile_def ctx_pending_def wolf_codes)
  have k: "a_key args0 = Foreign 0"
    by (simp add: args0_def)
  note t = myEccSign_load_file_failure_frees_caller_key [OF s l, of args0]
  have f: "freed (r_trace (myEccSign True world_nofile args0 (ctx_pending ''/nonexistent'') heap0))
             = [a_key args0]"
    using t by blast
  have b: "bad_free (r_heap (myEccSign True world_nofile args0 (ctx_pending ''/nonexistent'') heap0))
             = bad_free heap0 @ [Foreign 0]"
    using t k by blast
  have e: "bad_free heap0 = []"
    by (simp add: heap0_def)
  show ?thesis
    using s l k f b e by simp
qed

text \<open>
  C10 as it is written fails when \<^verbatim>\<open>load_key_file\<close> fails after \<^verbatim>\<open>load_file\<close>: here the
  file is read and \<^verbatim>\<open>wc_KeyPemToDer\<close> returns -1. \<^verbatim>\<open>keyBuf\<close> has been assigned the block
  for the DER key, which \<^verbatim>\<open>load_key_file\<close> frees before it returns; \<^verbatim>\<open>myEccSign\<close> frees
  that block again, and never the caller's key.
\<close>

theorem load_key_file_failure_counterexample:
  "lk_ret (load_key_file world_badpem (Some KEY_FILE) (a_key args0) (a_keySz args0) heap0) \<noteq> 0
   \<and> lk_derBuf (load_key_file world_badpem (Some KEY_FILE) (a_key args0) (a_keySz args0) heap0)
       \<noteq> a_key args0
   \<and> freed (r_trace (myEccSign True world_badpem args0 (ctx_pending KEY_FILE) heap0))
       = [Block 1, Block 2, Block 2]
   \<and> a_key args0
       \<notin> set (freed (r_trace (myEccSign True world_badpem args0 (ctx_pending KEY_FILE) heap0)))"
  by (simp add: run_defs world_badpem_def world_ok_def args0_def ctx_pending_def heap0_def
      wolf_codes KEY_FILE_def)

subsection \<open>The handshake loop\<close>

lemma accept_loop_step:
  "accept_loop acc gerr ssl n =
     (if accept_err acc gerr ssl 0 = WC_PENDING_E
      then accept_loop acc gerr (snd (acc ssl)) (Suc n)
      else Some (fst (acc ssl), accept_err acc gerr ssl 0, snd (acc ssl), Suc n))"
  by (subst accept_loop.simps) (simp add: accept_err_def Let_def split: prod.split)

lemma accept_err_Suc: "accept_err acc gerr ssl (Suc j) = accept_err acc gerr (snd (acc ssl)) j"
  by (simp add: accept_err_def)

lemma accept_loop_returns:
  assumes "\<forall>j<k. accept_err acc gerr ssl j = WC_PENDING_E"
    and "accept_err acc gerr ssl k \<noteq> WC_PENDING_E"
  shows "accept_loop acc gerr ssl n =
           Some (fst (accept_call acc ssl k), accept_err acc gerr ssl k,
                 snd (accept_call acc ssl k), n + Suc k)"
  using assms
proof (induction k arbitrary: ssl n)
  case 0
  then show ?case
    by (subst accept_loop_step) simp
next
  case (Suc k)
  have first: "accept_err acc gerr ssl 0 = WC_PENDING_E"
    using Suc.prems(1) by blast
  have rest: "\<forall>j<k. accept_err acc gerr (snd (acc ssl)) j = WC_PENDING_E"
  proof (intro allI impI)
    fix j assume "j < k"
    then have "accept_err acc gerr ssl (Suc j) = WC_PENDING_E"
      using Suc.prems(1) by simp
    then show "accept_err acc gerr (snd (acc ssl)) j = WC_PENDING_E"
      by (simp add: accept_err_Suc)
  qed
  have last: "accept_err acc gerr (snd (acc ssl)) k \<noteq> WC_PENDING_E"
    using Suc.prems(2) by (simp add: accept_err_Suc)
  have step: "accept_loop acc gerr ssl n = accept_loop acc gerr (snd (acc ssl)) (Suc n)"
    using first by (subst accept_loop_step) simp
  show ?case
    unfolding step using Suc.IH [OF rest last, of "Suc n"]
    by (simp add: accept_err_Suc)
qed

lemma accept_loop_Some_exists:
  assumes "accept_loop acc gerr ssl n = Some r"
  shows "\<exists>k. accept_err acc gerr ssl k \<noteq> WC_PENDING_E"
proof (rule accept_loop.raw_induct
    [where P = "\<lambda>acc gerr ssl n r. \<exists>k. accept_err acc gerr ssl k \<noteq> WC_PENDING_E", OF _ assms])
  fix f :: "('a \<Rightarrow> int \<times> 'a) \<Rightarrow> ('a \<Rightarrow> int \<Rightarrow> int) \<Rightarrow> 'a \<Rightarrow> nat \<Rightarrow> (int \<times> int \<times> 'a \<times> nat) option"
    and acc gerr ssl n r
  assume IH: "\<And>acc gerr ssl n y. f acc gerr ssl n = Some y
                \<Longrightarrow> \<exists>k. accept_err acc gerr ssl k \<noteq> WC_PENDING_E"
    and body: "(case acc ssl of
                  (ret, ssl') \<Rightarrow>
                    (let err = gerr ssl' ret in
                     if err = WC_PENDING_E then f acc gerr ssl' (Suc n)
                     else Some (ret, err, ssl', Suc n))) = Some r"
  show "\<exists>k. accept_err acc gerr ssl k \<noteq> WC_PENDING_E"
  proof (cases "accept_err acc gerr ssl 0 = WC_PENDING_E")
    case True
    then have "f acc gerr (snd (acc ssl)) (Suc n) = Some r"
      using body by (simp add: accept_err_def Let_def split: prod.splits)
    then obtain k where "accept_err acc gerr (snd (acc ssl)) k \<noteq> WC_PENDING_E"
      using IH by blast
    then have "accept_err acc gerr ssl (Suc k) \<noteq> WC_PENDING_E"
      by (simp add: accept_err_Suc)
    then show ?thesis by blast
  next
    case False
    then show ?thesis by blast
  qed
qed

text \<open>While every answer is \<^verbatim>\<open>WC_PENDING_E\<close> the loop goes on: it never gives up.\<close>

lemma tls_accept_forever_pending:
  assumes "\<forall>j. accept_err acc gerr ssl j = WC_PENDING_E"
  shows "tls_accept acc gerr ssl = None"
proof (cases "accept_loop acc gerr ssl 0")
  case None
  then show ?thesis by (simp add: tls_accept_def)
next
  case (Some r)
  then show ?thesis
    using accept_loop_Some_exists [OF Some] assms by blast
qed

text \<open>
  C7. When the first \<open>k\<close> calls of \<^verbatim>\<open>wolfSSL_accept\<close> on a session end with the error
  \<^verbatim>\<open>WC_PENDING_E\<close> and the next one with another, the loop of \<^verbatim>\<open>main\<close> calls
  \<^verbatim>\<open>wolfSSL_accept\<close> exactly \<open>k + 1\<close> times, each time on the session as the call before
  left it, and ends with the result of the last call. No pending answer makes it leave:
  the connection is given up (the jump to \<^verbatim>\<open>exit\<close>) only when that last result is not
  \<^verbatim>\<open>WOLFSSL_SUCCESS\<close>.
\<close>

theorem tls_accept_retries_while_pending:
  assumes "\<forall>j<k. accept_err acc gerr ssl j = WC_PENDING_E"
    and "accept_err acc gerr ssl k \<noteq> WC_PENDING_E"
  shows "accept_loop acc gerr ssl 0 =
           Some (fst (accept_call acc ssl k), accept_err acc gerr ssl k,
                 snd (accept_call acc ssl k), Suc k)
       \<and> tls_accept acc gerr ssl =
           Some (if fst (accept_call acc ssl k) \<noteq> WOLFSSL_SUCCESS
                 then Inl (fst (accept_call acc ssl k))
                 else Inr (snd (accept_call acc ssl k)))"
  using accept_loop_returns [OF assms, of 0] by (simp add: tls_accept_def)

theorem tls_accept_retries_while_pending_witness:
  "accept_err (wolfSSL_accept client_retry) (wolfSSL_get_error client_retry) 0 0
       = WC_PENDING_E
   \<and> accept_err (wolfSSL_accept client_retry) (wolfSSL_get_error client_retry) 0 (Suc 0)
       \<noteq> WC_PENDING_E
   \<and> accept_loop (wolfSSL_accept client_retry) (wolfSSL_get_error client_retry) 0 0
       = Some (1, 0, 2, 2)
   \<and> tls_accept (wolfSSL_accept client_retry) (wolfSSL_get_error client_retry) 0
       = Some (Inr 2)"
proof -
  have z: "accept_err (wolfSSL_accept client_retry) (wolfSSL_get_error client_retry) 0 0
       = WC_PENDING_E"
    by (simp add: accept_err_def client_retry_def)
  then have a: "\<forall>j<Suc 0. accept_err (wolfSSL_accept client_retry)
       (wolfSSL_get_error client_retry) 0 j = WC_PENDING_E"
    by simp
  have b: "accept_err (wolfSSL_accept client_retry) (wolfSSL_get_error client_retry) 0 (Suc 0)
       \<noteq> WC_PENDING_E"
    by (simp add: accept_err_def client_retry_def WC_PENDING_E_def)
  show ?thesis
    using tls_accept_retries_while_pending [OF a b] z b
    by (simp add: accept_err_def client_retry_def WOLFSSL_SUCCESS_def)
qed

subsection \<open>The contexts of the connections\<close>

lemma tls_accept_client_retry:
  "tls_accept (wolfSSL_accept client_retry) (wolfSSL_get_error client_retry) 0 = Some (Inr 2)"
  by (simp add: tls_accept_def accept_loop_step [of _ _ 0] accept_loop_step [of _ _ "Suc 0"]
      accept_err_def client_retry_def WC_PENDING_E_def WOLFSSL_SUCCESS_def)

lemma main_loop_Cons_cases:
  "fst (main_loop p n (cl # cls)) = []
   \<or> fst (main_loop p n (cl # cls)) = [WOLFSSL_new n, SetEccSignCtx n p]
   \<or> fst (main_loop p n (cl # cls))
       = [WOLFSSL_new n, SetEccSignCtx n p] @ fst (main_loop p (Suc n) cls)"
  by (simp add: Let_def case_prod_unfold split: option.split sum.split)

lemma session_events_0: "session_events p n 0 = []"
  by (simp add: session_events_def)

lemma session_events_Suc:
  "session_events p n (Suc k) = [WOLFSSL_new n, SetEccSignCtx n p] @ session_events p (Suc n) k"
  by (simp add: session_events_def upt_rec)

lemma main_loop_trace:
  "fst (main_loop p n cls)
     = session_events p n (length (sessions_created (fst (main_loop p n cls))))"
proof (induction cls arbitrary: n)
  case Nil
  then show ?case by (simp add: session_events_0)
next
  case (Cons cl cls)
  let ?rest = "fst (main_loop p (Suc n) cls)"
  consider "fst (main_loop p n (cl # cls)) = []"
    | "fst (main_loop p n (cl # cls)) = [WOLFSSL_new n, SetEccSignCtx n p]"
    | "fst (main_loop p n (cl # cls)) = [WOLFSSL_new n, SetEccSignCtx n p] @ ?rest"
    using main_loop_Cons_cases [of p n cl cls] by blast
  then show ?case
  proof cases
    case 1
    then show ?thesis by (simp add: session_events_0)
  next
    case 2
    then show ?thesis by (simp add: session_events_Suc session_events_0)
  next
    case 3
    have l: "length (sessions_created (fst (main_loop p n (cl # cls))))
            = Suc (length (sessions_created ?rest))"
      unfolding 3 by simp
    have r: "?rest = session_events p (Suc n) (length (sessions_created ?rest))"
      by (rule Cons.IH)
    show ?thesis
      unfolding l session_events_Suc using 3 r by simp
  qed
qed

lemma main_loop_completes:
  assumes "completes cl"
  shows "fst (main_loop p n (cl # cls))
           = WOLFSSL_new n # SetEccSignCtx n p # fst (main_loop p (Suc n) cls)"
proof -
  have a: "accept_ret cl \<noteq> - 1" and r: "fst (wolfSSL_read cl) \<noteq> - 1"
    and w: "wolfSSL_write cl = 22" and s: "take 8 (snd (wolfSSL_read cl)) \<noteq> ''shutdown''"
    using assms by (simp_all add: completes_def)
  obtain ssl where n: "wolfSSL_new cl = Some ssl"
    using assms by (auto simp: completes_def split: option.splits)
  obtain ssl' where t: "tls_accept (wolfSSL_accept cl) (wolfSSL_get_error cl) ssl = Some (Inr ssl')"
    using assms n by (auto simp: completes_def split: option.splits sum.splits)
  show ?thesis
    using a r w s by (simp add: n t Let_def case_prod_unfold)
qed

lemma main_loop_gets_session:
  assumes "gets_session cl"
  shows "\<exists>t. fst (main_loop p n (cl # cls)) = [WOLFSSL_new n, SetEccSignCtx n p] @ t"
proof -
  have a: "accept_ret cl \<noteq> - 1"
    using assms by (simp add: gets_session_def)
  obtain ssl where n: "wolfSSL_new cl = Some ssl"
    using assms by (auto simp: gets_session_def)
  show ?thesis
    using a by (simp add: n Let_def case_prod_unfold split: option.split sum.split)
qed

lemma main_loop_reaches:
  assumes "list_all completes cls" and "gets_session cl"
  shows "(n + length cls, p) \<in> set (attached (fst (main_loop p n (cls @ cl # rest))))"
  using assms
proof (induction cls arbitrary: n)
  case Nil
  then obtain t where "fst (main_loop p n (cl # rest)) = [WOLFSSL_new n, SetEccSignCtx n p] @ t"
    using main_loop_gets_session by blast
  then show ?case by simp
next
  case (Cons c cls)
  have c: "completes c" and cs: "list_all completes cls"
    using Cons.prems(1) by simp_all
  have e: "fst (main_loop p n ((c # cls) @ cl # rest))
             = WOLFSSL_new n # SetEccSignCtx n p # fst (main_loop p (Suc n) (cls @ cl # rest))"
    unfolding append_Cons by (rule main_loop_completes [OF c])
  have "(Suc n + length cls, p) \<in> set (attached (fst (main_loop p (Suc n) (cls @ cl # rest))))"
    by (rule Cons.IH [OF cs Cons.prems(2)])
  then show ?case
    unfolding e by simp
qed

lemma completes_client_retry: "completes client_retry"
proof -
  have w: "wolfSSL_new client_retry = Some 0" "accept_ret client_retry = 4"
    "wolfSSL_read client_retry = (5, ''hello'')" "wolfSSL_write client_retry = 22"
    by (simp_all add: client_retry_def)
  show ?thesis
    by (simp add: completes_def w tls_accept_client_retry)
qed

lemma main_loop_no_context: "contexts_created (fst (main_loop p n cls)) = []"
proof (induction cls arbitrary: n)
  case Nil
  then show ?case by simp
next
  case (Cons cl cls)
  then show ?case
    using main_loop_Cons_cases [of p n cl cls] by auto
qed

text \<open>
  C9, as the code has it. \<^verbatim>\<open>main\<close> creates one \<^verbatim>\<open>PkCbInfo\<close>, before anything else and so
  before any connection, and creates no other. What follows in a run is, for each
  session it creates, numbered in the order of the connections, the creation of the
  session and at once the call that gives it the address of that one context, and
  nothing else. And every connection gets there: when the clients before it have run to
  the end of their pass of the loop and it is accepted and gets a session, that session
  is given the one context.
\<close>

theorem main_single_shared_context:
  "contexts_created (fst (main pre cls)) = [0]
   \<and> fst (main pre cls)
       = PkCbInfo_new 0 # session_events 0 0 (length (sessions_created (fst (main pre cls))))
   \<and> (cls = done @ cl # rest \<and> list_all completes done \<and> gets_session cl
        \<longrightarrow> (length done, 0) \<in> set (attached (fst (main None cls))))"
proof -
  have t: "fst (main None cls) = PkCbInfo_new 0 # fst (main_loop 0 0 cls)"
    by (simp add: main_def Let_def case_prod_unfold)
  have at: "attached (fst (main None cls)) = attached (fst (main_loop 0 0 cls))"
    unfolding t by simp
  have r: "cls = done @ cl # rest \<and> list_all completes done \<and> gets_session cl
        \<longrightarrow> (length done, 0) \<in> set (attached (fst (main None cls)))"
    unfolding at using main_loop_reaches [of "done" cl 0 0 rest] by auto
  have c: "contexts_created (fst (main pre cls)) = [0]"
  proof (cases pre)
    case None
    show ?thesis unfolding None t by (simp add: main_loop_no_context)
  next
    case (Some ret)
    then show ?thesis by (simp add: main_def)
  qed
  have tr: "fst (main pre cls)
          = PkCbInfo_new 0 # session_events 0 0 (length (sessions_created (fst (main pre cls))))"
  proof (cases pre)
    case None
    have a: "fst (main_loop 0 0 cls)
               = session_events 0 0 (length (sessions_created (fst (main_loop 0 0 cls))))"
      by (rule main_loop_trace)
    have s: "sessions_created (fst (main None cls))
               = sessions_created (fst (main_loop 0 0 cls))"
      unfolding t by simp
    show ?thesis
      unfolding None s using a t by simp
  next
    case (Some ret)
    then show ?thesis by (simp add: main_def session_events_0)
  qed
  show ?thesis
    using c tr r by (intro conjI)
qed

theorem main_single_shared_context_witness:
  "list_all completes [client_retry] \<and> gets_session client_retry
   \<and> (1, 0) \<in> set (attached (fst (main None [client_retry, client_retry])))"
proof -
  have c: "list_all completes [client_retry]"
    by (simp add: completes_client_retry)
  have g: "gets_session client_retry"
    by (simp add: gets_session_def client_retry_def)
  have e: "[client_retry, client_retry] = [client_retry] @ client_retry # []"
    by simp
  note t = main_single_shared_context
    [of None "[client_retry, client_retry]" "[client_retry]" client_retry "[]"]
  have m: "(length [client_retry], 0)
             \<in> set (attached (fst (main None [client_retry, client_retry])))"
    using t c g e by blast
  show ?thesis
    using c g m by simp
qed

text \<open>
  C9 as it is written fails on two connections in a row: the sessions 0 and 1 are
  distinct, and both are given the context 0.
\<close>

theorem main_shares_context_counterexample:
  "fst (main None [client_retry, client_retry])
     = [PkCbInfo_new 0, WOLFSSL_new 0, SetEccSignCtx 0 0, WOLFSSL_new 1, SetEccSignCtx 1 0]
   \<and> attached (fst (main None [client_retry, client_retry])) = [(0, 0), (1, 0)]"
proof -
  have w: "wolfSSL_new client_retry = Some 0" "accept_ret client_retry = 4"
    "wolfSSL_read client_retry = (5, ''hello'')" "wolfSSL_write client_retry = 22"
    by (simp_all add: client_retry_def)
  show ?thesis
    by (simp add: main_def w tls_accept_client_retry)
qed

end
